theory Spec2Isabelle
  imports Main
begin

section \<open>The users service of the admin backend\<close>

text \<open>
  A shallow embedding of \<^verbatim>\<open>UsersService\<close>
  (\<^verbatim>\<open>backend/src/modules/admin/access/users/users.service.ts\<close>).
  The service is an orchestration layer: every operation is a short sequence of
  awaited calls to four collaborators (repository, mapper, hash helper, pagination
  helper) wrapped in \<^verbatim>\<open>try\<close>/\<^verbatim>\<open>catch\<close> blocks that translate
  failures. The collaborators are not part of the service file; they are the fields
  of the record \<open>deps\<close> below, and every theorem holds for all of them.
\<close>

subsection \<open>Thrown values\<close>

text \<open>
  What a \<^verbatim>\<open>catch (error)\<close> of the service inspects is the class of the thrown
  object (\<^verbatim>\<open>instanceof\<close>) and its \<^verbatim>\<open>code\<close> property. A thrown value is
  an object with these two attributes; \<open>code = None\<close> is an absent
  (\<^verbatim>\<open>undefined\<close>) property. \<open>UserExistsException\<close> carries the argument of its
  constructor, which is \<^verbatim>\<open>undefined\<close> (\<open>None\<close>) when the service passes an
  absent property. The test \<^verbatim>\<open>error instanceof C\<close> is \<open>cls error = C\<close>: the two
  classes the service tests for, \<open>NotFoundException\<close> and \<open>TimeoutError\<close>, are
  unrelated classes.
\<close>

datatype js_class =
    NotFoundException
  | RequestTimeoutException
  | InternalServerErrorException
  | UserExistsException "string option"
  | ForeignKeyConflictException
  | InvalidCurrentPasswordException
  | TimeoutError
  | TypeError
  | OtherError string

record js_error =
  cls :: js_class
  code :: "string option"

text \<open>\<^verbatim>\<open>new C()\<close> for the exception classes the service constructs: no \<^verbatim>\<open>code\<close>.\<close>

definition new_exception :: "js_class \<Rightarrow> js_error" where
  "new_exception c = \<lparr>cls = c, code = None\<rparr>"

subsection \<open>Data\<close>

text \<open>
  Modelled from the spec: the declarations of the entity, of the DTOs, of the status
  enumeration and of the pagination request are imported by the service and are not
  part of it. The entity has an id, a unique username, the credential, a status and the
  relations to roles and permissions; the response DTO has no credential; the update
  input is partial (an absent field is \<open>None\<close>). The service itself reads and writes
  only \<open>password\<close> and \<open>status\<close> of the entity, \<open>username\<close> of the three inputs,
  and \<open>currentPassword\<close> and \<open>newPassword\<close> of the change-password request.
\<close>

datatype UserStatus = Active | Blocked | OtherStatus string

record UserEntity =
  user_id :: string
  username :: string
  password :: string
  status :: UserStatus
  roles :: "string list"
  permissions :: "string list"

record CreateUserRequestDto =
  create_username :: string
  create_password :: string
  create_roles :: "string list"
  create_permissions :: "string list"

record CreateUserBaseRequestDto =
  base_username :: string
  base_password :: string

record UpdateUserRequestDto =
  update_username :: "string option"
  update_status :: "UserStatus option"
  update_roles :: "string list option"
  update_permissions :: "string list option"

record ChangePasswordRequestDto =
  currentPassword :: string
  newPassword :: string

record UserResponseDto =
  dto_id :: string
  dto_username :: string
  dto_status :: UserStatus
  dto_roles :: "string list"
  dto_permissions :: "string list"

record PaginationRequest =
  skip :: nat
  page :: nat
  limit :: nat

subsection \<open>Collaborators\<close>

text \<open>
  The three ways the service asks the repository for one user:
  \<^verbatim>\<open>findOne(id)\<close>, \<^verbatim>\<open>findOne(id, { relations })\<close> and
  \<^verbatim>\<open>findOne({ id: userId })\<close>.
\<close>

datatype find_criteria =
    ById string
  | ByIdWithRelations string "string list"
  | WhereId string

text \<open>
  \<^verbatim>\<open>save\<close> receives the entity object by reference and resolves to an entity.
  \<open>returned\<close> is the value the promise resolves to; \<open>argument\<close> is the object that
  was passed in, as the call leaves it. \<^verbatim>\<open>createUser\<close> and \<^verbatim>\<open>updateUser\<close>
  continue with the former, \<^verbatim>\<open>changePassword\<close> and \<^verbatim>\<open>blockUser\<close> with the
  latter.
\<close>

record save_ok =
  returned :: UserEntity
  argument :: UserEntity

text \<open>
  A call whose value is returned without \<^verbatim>\<open>await\<close> from inside a
  \<^verbatim>\<open>try\<close> block (\<^verbatim>\<open>return UserMapper.toDto(userEntity)\<close>) can end in three
  ways: it returns a value (or a promise of one), it throws, or it returns a promise that
  rejects. Only a throw is seen by the \<^verbatim>\<open>catch\<close> of that block.
\<close>

datatype 'a completion = Returns 'a | Throws js_error | ReturnsRejected js_error

text \<open>
  A promise that is not awaited by itself but handed to \<^verbatim>\<open>Promise.all\<close>: how it
  settles (\<open>Inr\<close> fulfilled, \<open>Inl\<close> rejected) and when. \<open>settled_at\<close> is the
  position of its settlement in the order of events of the run; only the order of these
  numbers matters.
\<close>

record 'a promise =
  outcome :: "js_error + 'a"
  settled_at :: nat

text \<open>
  The collaborators and the constants of \<^verbatim>\<open>DBErrorCode\<close> are the fields of one
  record. \<open>'db\<close> is the state of the persistence layer, \<open>'env\<close> the envelope type of
  the pagination helper. The fetches read the store, \<^verbatim>\<open>save\<close> alone changes it.
  An awaited call that fails is \<open>Inl\<close> of the thrown value.
  \<^verbatim>\<open>getUsersAndCount\<close> resolves to a pair whose first component may be absent (the
  service reads it with \<^verbatim>\<open>?.\<close>). \<^verbatim>\<open>toCreateEntity\<close>,
  \<^verbatim>\<open>toCreateSimpleEntity\<close> and \<^verbatim>\<open>toUpdateEntity\<close> are called without
  \<^verbatim>\<open>await\<close> and their value is used as an entity at once, so they return or throw;
  \<^verbatim>\<open>toDtoWithRelations\<close> returns a promise, which \<^verbatim>\<open>getUsers\<close> hands to
  \<^verbatim>\<open>Promise.all\<close> and \<^verbatim>\<open>getUserById\<close> returns as its own.
\<close>

text \<open>
  Modelled from the spec: \<^verbatim>\<open>Pagination.of\<close> and \<^verbatim>\<open>DBErrorCode\<close> are declared
  outside the service file. The pagination helper turns a page request, a total and a
  list of items into the envelope by arithmetic, so a call of it returns the envelope or
  throws; \<^verbatim>\<open>DBErrorCode\<close> holds the string codes of the storage layer's constraint
  violations, which the service compares with the \<^verbatim>\<open>code\<close> of the error. Their
  values are not fixed here: they are fields like the others.
\<close>

record ('db, 'env) deps =
  repo_findOne :: "find_criteria \<Rightarrow> 'db \<Rightarrow> js_error + UserEntity option"
  repo_getUsersAndCount ::
    "PaginationRequest \<Rightarrow> 'db \<Rightarrow> js_error + (UserEntity list option \<times> int)"
  repo_save :: "UserEntity \<Rightarrow> 'db \<Rightarrow> (js_error + save_ok) \<times> 'db"
  encrypt :: "string \<Rightarrow> js_error + string"
  compare :: "string \<Rightarrow> string \<Rightarrow> js_error + bool"
  toCreateEntity :: "CreateUserRequestDto \<Rightarrow> js_error + UserEntity"
  toCreateSimpleEntity :: "CreateUserBaseRequestDto \<Rightarrow> js_error + UserEntity"
  toUpdateEntity :: "UserEntity \<Rightarrow> UpdateUserRequestDto \<Rightarrow> js_error + UserEntity"
  toDto :: "UserEntity \<Rightarrow> UserResponseDto completion"
  toDtoWithRelations :: "UserEntity \<Rightarrow> UserResponseDto promise"
  Pagination_of ::
    "PaginationRequest \<Rightarrow> int \<Rightarrow> UserResponseDto list \<Rightarrow> js_error + 'env"
  PgUniqueConstraintViolation :: string
  PgForeignKeyConstraintViolation :: string
  PgNotNullConstraintViolation :: string

subsection \<open>The world, and asynchronous computations on it\<close>

text \<open>
  The world is the state of the persistence layer and the sequence of calls the service
  has made to its collaborators, oldest first.
\<close>

datatype call =
    Repo_findOne find_criteria
  | Repo_getUsersAndCount PaginationRequest
  | Repo_save UserEntity
  | Hash_encrypt string
  | Hash_compare string string
  | Mapper_toCreateEntity CreateUserRequestDto
  | Mapper_toCreateSimpleEntity CreateUserBaseRequestDto
  | Mapper_toUpdateEntity UserEntity UpdateUserRequestDto
  | Mapper_toDto UserEntity
  | Mapper_toDtoWithRelations UserEntity
  | Pagination_of_call PaginationRequest int "UserResponseDto list"
  | Logger_error js_error

record 'db world =
  store :: 'db
  trace :: "call list"

type_synonym ('db, 'a) io = "'db world \<Rightarrow> (js_error + 'a) \<times> 'db world"

definition resolve :: "'a \<Rightarrow> ('db, 'a) io" where
  "resolve x w = (Inr x, w)"

definition throw :: "js_error \<Rightarrow> ('db, 'a) io" where
  "throw e w = (Inl e, w)"

definition await :: "('db, 'a) io \<Rightarrow> ('a \<Rightarrow> ('db, 'b) io) \<Rightarrow> ('db, 'b) io" where
  "await m k w = (case m w of (Inl e, w') \<Rightarrow> (Inl e, w') | (Inr x, w') \<Rightarrow> k x w')"

text \<open>
  \<^verbatim>\<open>try { ... return v } catch (error) { handler }\<close> in an async function. The
  body ends by returning \<open>v\<close>, a settled promise (\<open>Inr\<close> fulfilled, \<open>Inl\<close>
  rejected), which the function's own promise adopts; an error thrown in the body goes
  to the handler.
\<close>

definition try_catch ::
  "('db, js_error + 'a) io \<Rightarrow> (js_error \<Rightarrow> ('db, 'a) io) \<Rightarrow> ('db, 'a) io" where
  "try_catch body handler w =
     (case body w of (Inl e, w') \<Rightarrow> handler e w' | (Inr v, w') \<Rightarrow> (v, w'))"

definition logged :: "call \<Rightarrow> 'db world \<Rightarrow> 'db world" where
  "logged c w = w\<lparr>trace := trace w @ [c]\<rparr>"

definition usersRepository_findOne ::
  "('db, 'env) deps \<Rightarrow> find_criteria \<Rightarrow> ('db, UserEntity option) io" where
  "usersRepository_findOne D c w = (repo_findOne D c (store w), logged (Repo_findOne c) w)"

definition usersRepository_getUsersAndCount ::
  "('db, 'env) deps \<Rightarrow> PaginationRequest \<Rightarrow> ('db, UserEntity list option \<times> int) io" where
  "usersRepository_getUsersAndCount D p w =
     (repo_getUsersAndCount D p (store w), logged (Repo_getUsersAndCount p) w)"

definition usersRepository_save :: "('db, 'env) deps \<Rightarrow> UserEntity \<Rightarrow> ('db, save_ok) io" where
  "usersRepository_save D e w =
     (case repo_save D e (store w) of
        (r, db') \<Rightarrow> (r, logged (Repo_save e) (w\<lparr>store := db'\<rparr>)))"

definition HashHelper_encrypt :: "('db, 'env) deps \<Rightarrow> string \<Rightarrow> ('db, string) io" where
  "HashHelper_encrypt D s w = (encrypt D s, logged (Hash_encrypt s) w)"

definition HashHelper_compare :: "('db, 'env) deps \<Rightarrow> string \<Rightarrow> string \<Rightarrow> ('db, bool) io" where
  "HashHelper_compare D s h w = (compare D s h, logged (Hash_compare s h) w)"

definition UserMapper_toCreateEntity ::
  "('db, 'env) deps \<Rightarrow> CreateUserRequestDto \<Rightarrow> ('db, UserEntity) io" where
  "UserMapper_toCreateEntity D d w = (toCreateEntity D d, logged (Mapper_toCreateEntity d) w)"

definition UserMapper_toCreateSimpleEntity ::
  "('db, 'env) deps \<Rightarrow> CreateUserBaseRequestDto \<Rightarrow> ('db, UserEntity) io" where
  "UserMapper_toCreateSimpleEntity D d w =
     (toCreateSimpleEntity D d, logged (Mapper_toCreateSimpleEntity d) w)"

definition UserMapper_toUpdateEntity ::
  "('db, 'env) deps \<Rightarrow> UserEntity \<Rightarrow> UpdateUserRequestDto \<Rightarrow> ('db, UserEntity) io" where
  "UserMapper_toUpdateEntity D e d w =
     (toUpdateEntity D e d, logged (Mapper_toUpdateEntity e d) w)"

text \<open>The un-awaited \<^verbatim>\<open>UserMapper.toDto(e)\<close> in return position of a try block.\<close>

definition UserMapper_toDto ::
  "('db, 'env) deps \<Rightarrow> UserEntity \<Rightarrow> ('db, js_error + UserResponseDto) io" where
  "UserMapper_toDto D e w =
     (case toDto D e of
        Returns d \<Rightarrow> Inr (Inr d)
      | Throws err \<Rightarrow> Inl err
      | ReturnsRejected err \<Rightarrow> Inr (Inl err),
      logged (Mapper_toDto e) w)"

definition UserMapper_toDtoWithRelations ::
  "('db, 'env) deps \<Rightarrow> UserEntity \<Rightarrow> ('db, UserResponseDto) io" where
  "UserMapper_toDtoWithRelations D e w =
     (outcome (toDtoWithRelations D e), logged (Mapper_toDtoWithRelations e) w)"

text \<open>
  \<^verbatim>\<open>Promise.all(promises)\<close> rejects as soon as one of the promises rejects, with
  the reason of that promise: of several rejections the first to settle wins, wherever
  it stands in the array. \<open>earliest_rejection\<close> is that rejection with its time, if
  there is one. Two promises do not settle at the same instant in the program; equal
  times are resolved here in favour of the earlier position. When no promise rejects,
  the result is the array of the values in the order of the promises, whatever the order
  in which they were fulfilled.
\<close>

fun earliest_rejection :: "'a promise list \<Rightarrow> (nat \<times> js_error) option" where
  "earliest_rejection [] = None"
| "earliest_rejection (p # ps) =
     (case outcome p of
        Inr x \<Rightarrow> earliest_rejection ps
      | Inl e \<Rightarrow>
          (case earliest_rejection ps of
             None \<Rightarrow> Some (settled_at p, e)
           | Some (t, e') \<Rightarrow> if settled_at p \<le> t then Some (settled_at p, e) else Some (t, e')))"

fun fulfilled_values :: "'a promise list \<Rightarrow> 'a list" where
  "fulfilled_values [] = []"
| "fulfilled_values (p # ps) =
     (case outcome p of Inr x \<Rightarrow> x # fulfilled_values ps | Inl e \<Rightarrow> fulfilled_values ps)"

definition Promise_all :: "'a promise list \<Rightarrow> js_error + 'a list" where
  "Promise_all ps =
     (case earliest_rejection ps of
        Some (t, e) \<Rightarrow> Inl e
      | None \<Rightarrow> Inr (fulfilled_values ps))"

text \<open>
  \<^verbatim>\<open>await Promise.all(userEntities.map(UserMapper.toDtoWithRelations))\<close>: the map
  calls the mapper on every entity, in order, before anything is awaited.
\<close>

definition Promise_all_toDtoWithRelations ::
  "('db, 'env) deps \<Rightarrow> UserEntity list \<Rightarrow> ('db, UserResponseDto list) io" where
  "Promise_all_toDtoWithRelations D es w =
     (Promise_all (map (toDtoWithRelations D) es),
      w\<lparr>trace := trace w @ map Mapper_toDtoWithRelations es\<rparr>)"

definition Pagination_of_io ::
  "('db, 'env) deps \<Rightarrow> PaginationRequest \<Rightarrow> int \<Rightarrow> UserResponseDto list \<Rightarrow> ('db, 'env) io" where
  "Pagination_of_io D p n ds w = (Pagination_of D p n ds, logged (Pagination_of_call p n ds) w)"

definition Logger_error_io :: "js_error \<Rightarrow> ('db, unit) io" where
  "Logger_error_io e w = (Inr (), logged (Logger_error e) w)"

subsection \<open>The service\<close>

text \<open>
  Each operation is written as the source has it; the \<^verbatim>\<open>catch\<close> block of an
  operation is a definition of its own, named after the operation.
\<close>

definition getUsers_catch :: "js_error \<Rightarrow> ('db, 'env) io" where
  "getUsers_catch error =
     (if cls error = NotFoundException then throw (new_exception NotFoundException)
      else if cls error = TimeoutError then throw (new_exception RequestTimeoutException)
      else throw (new_exception InternalServerErrorException))"

definition getUsers :: "('db, 'env) deps \<Rightarrow> PaginationRequest \<Rightarrow> ('db, 'env) io" where
  "getUsers D pagination =
     try_catch
       (await (usersRepository_getUsersAndCount D pagination) (\<lambda>(userEntities, totalUsers).
          case userEntities of
            None \<Rightarrow> throw (new_exception NotFoundException)
          | Some es \<Rightarrow>
              if length es = 0 \<or> totalUsers = 0 then throw (new_exception NotFoundException)
              else
                await (Promise_all_toDtoWithRelations D es) (\<lambda>UserDtos.
                await (Pagination_of_io D pagination totalUsers UserDtos) (\<lambda>env.
                resolve (Inr env)))))
       getUsers_catch"

definition getUserById :: "('db, 'env) deps \<Rightarrow> string \<Rightarrow> ('db, UserResponseDto) io" where
  "getUserById D i =
     await (usersRepository_findOne D (ByIdWithRelations i [''permissions'', ''roles'']))
       (\<lambda>userEntity.
          case userEntity of
            None \<Rightarrow> throw (new_exception NotFoundException)
          | Some e \<Rightarrow> UserMapper_toDtoWithRelations D e)"

definition createUser_catch ::
  "('db, 'env) deps \<Rightarrow> CreateUserRequestDto \<Rightarrow> js_error \<Rightarrow> ('db, UserResponseDto) io" where
  "createUser_catch D userDto error =
     (if code error = Some (PgUniqueConstraintViolation D)
      then throw (new_exception (UserExistsException (Some (create_username userDto))))
      else if code error = Some (PgForeignKeyConstraintViolation D)
              \<or> code error = Some (PgNotNullConstraintViolation D)
      then throw (new_exception ForeignKeyConflictException)
      else if cls error = TimeoutError
      then throw (new_exception RequestTimeoutException)
      else throw (new_exception InternalServerErrorException))"

definition createUser ::
  "('db, 'env) deps \<Rightarrow> CreateUserRequestDto \<Rightarrow> ('db, UserResponseDto) io" where
  "createUser D userDto =
     try_catch
       (await (UserMapper_toCreateEntity D userDto) (\<lambda>userEntity.
        await (HashHelper_encrypt D (password userEntity)) (\<lambda>h.
        await (usersRepository_save D (userEntity\<lparr>password := h\<rparr>)) (\<lambda>saved.
        UserMapper_toDto D (returned saved)))))
       (createUser_catch D userDto)"

text \<open>The catch block of \<^verbatim>\<open>createUserBase\<close> logs the error in its second branch.\<close>

definition createUserBase_catch ::
  "('db, 'env) deps \<Rightarrow> CreateUserBaseRequestDto \<Rightarrow> js_error \<Rightarrow> ('db, UserResponseDto) io" where
  "createUserBase_catch D userDto error =
     (if code error = Some (PgUniqueConstraintViolation D)
      then throw (new_exception (UserExistsException (Some (base_username userDto))))
      else if code error = Some (PgForeignKeyConstraintViolation D)
              \<or> code error = Some (PgNotNullConstraintViolation D)
      then await (Logger_error_io error)
             (\<lambda>_. throw (new_exception ForeignKeyConflictException))
      else if cls error = TimeoutError
      then throw (new_exception RequestTimeoutException)
      else throw (new_exception InternalServerErrorException))"

definition createUserBase ::
  "('db, 'env) deps \<Rightarrow> CreateUserBaseRequestDto \<Rightarrow> ('db, UserResponseDto) io" where
  "createUserBase D userDto =
     try_catch
       (await (UserMapper_toCreateSimpleEntity D userDto) (\<lambda>userEntity.
        await (HashHelper_encrypt D (password userEntity)) (\<lambda>h.
        await (usersRepository_save D (userEntity\<lparr>password := h\<rparr>)) (\<lambda>saved.
        UserMapper_toDto D (returned saved)))))
       (createUserBase_catch D userDto)"

definition updateUser_catch ::
  "('db, 'env) deps \<Rightarrow> UpdateUserRequestDto \<Rightarrow> js_error \<Rightarrow> ('db, UserResponseDto) io" where
  "updateUser_catch D userDto error =
     (if code error = Some (PgUniqueConstraintViolation D)
      then throw (new_exception (UserExistsException (update_username userDto)))
      else if code error = Some (PgForeignKeyConstraintViolation D)
              \<or> code error = Some (PgNotNullConstraintViolation D)
      then throw (new_exception ForeignKeyConflictException)
      else if cls error = TimeoutError
      then throw (new_exception RequestTimeoutException)
      else throw (new_exception InternalServerErrorException))"

definition updateUser ::
  "('db, 'env) deps \<Rightarrow> string \<Rightarrow> UpdateUserRequestDto \<Rightarrow> ('db, UserResponseDto) io" where
  "updateUser D i userDto =
     await (usersRepository_findOne D (ById i)) (\<lambda>found.
       case found of
         None \<Rightarrow> throw (new_exception NotFoundException)
       | Some userEntity \<Rightarrow>
           try_catch
             (await (UserMapper_toUpdateEntity D userEntity userDto) (\<lambda>merged.
              await (usersRepository_save D merged) (\<lambda>saved.
              UserMapper_toDto D (returned saved))))
             (updateUser_catch D userDto))"

definition changePassword_catch :: "js_error \<Rightarrow> ('db, UserResponseDto) io" where
  "changePassword_catch error =
     (if cls error = TimeoutError
      then throw (new_exception RequestTimeoutException)
      else throw (new_exception InternalServerErrorException))"

definition changePassword ::
  "('db, 'env) deps \<Rightarrow> ChangePasswordRequestDto \<Rightarrow> string \<Rightarrow> ('db, UserResponseDto) io" where
  "changePassword D changePassword_dto userId =
     await (usersRepository_findOne D (WhereId userId)) (\<lambda>found.
       case found of
         None \<Rightarrow> throw (new_exception NotFoundException)
       | Some userEntity \<Rightarrow>
           await (HashHelper_compare D (currentPassword changePassword_dto) (password userEntity))
             (\<lambda>passwordMatch.
                if \<not> passwordMatch then throw (new_exception InvalidCurrentPasswordException)
                else
                  try_catch
                    (await (HashHelper_encrypt D (newPassword changePassword_dto)) (\<lambda>h.
                     await (usersRepository_save D (userEntity\<lparr>password := h\<rparr>)) (\<lambda>saved.
                     UserMapper_toDto D (argument saved))))
                    changePassword_catch))"

text \<open>
  \<^verbatim>\<open>blockUser\<close> assigns \<^verbatim>\<open>userEntity.status\<close> right after the fetch and
  outside its try block. When the fetch found nothing the assignment is to a property of
  \<^verbatim>\<open>undefined\<close>, which throws a \<open>TypeError\<close>.
\<close>

definition blockUser_catch :: "js_error \<Rightarrow> ('db, UserResponseDto) io" where
  "blockUser_catch error =
     (if cls error = TimeoutError
      then throw (new_exception RequestTimeoutException)
      else throw (new_exception InternalServerErrorException))"

definition blockUser :: "('db, 'env) deps \<Rightarrow> string \<Rightarrow> ('db, UserResponseDto) io" where
  "blockUser D i =
     await (usersRepository_findOne D (ById i)) (\<lambda>found.
       case found of
         None \<Rightarrow> throw (new_exception TypeError)
       | Some userEntity \<Rightarrow>
           try_catch
             (await (usersRepository_save D (userEntity\<lparr>status := Blocked\<rparr>)) (\<lambda>saved.
              UserMapper_toDto D (argument saved)))
             blockUser_catch)"

subsection \<open>What a run of an operation handed to \<^verbatim>\<open>save\<close>\<close>

fun saved_entities :: "call list \<Rightarrow> UserEntity list" where
  "saved_entities [] = []"
| "saved_entities (Repo_save e # cs) = e # saved_entities cs"
| "saved_entities (c # cs) = saved_entities cs"

subsection \<open>The error mappings, in the words of the specification\<close>

text \<open>
  Create: a uniqueness violation is \<open>UserExists\<close> with the username, a foreign-key or
  not-null violation is \<open>ForeignKeyConflict\<close>, a timeout is \<open>RequestTimeout\<close>, any
  other persistence failure is \<open>InternalError\<close>.
\<close>

definition spec_create_failure :: "('db, 'env) deps \<Rightarrow> string \<Rightarrow> js_error \<Rightarrow> js_error" where
  "spec_create_failure D name err =
     (if code err = Some (PgUniqueConstraintViolation D)
      then new_exception (UserExistsException (Some name))
      else if code err \<in> {Some (PgForeignKeyConstraintViolation D),
                            Some (PgNotNullConstraintViolation D)}
      then new_exception ForeignKeyConflictException
      else if cls err = TimeoutError then new_exception RequestTimeoutException
      else new_exception InternalServerErrorException)"

text \<open>
  List: a \<open>NotFound\<close> is passed through, a timeout is \<open>RequestTimeout\<close>, any other
  failure is \<open>InternalError\<close>.
\<close>

definition spec_list_failure :: "js_error \<Rightarrow> js_error" where
  "spec_list_failure err =
     (if cls err = NotFoundException then new_exception NotFoundException
      else if cls err = TimeoutError then new_exception RequestTimeoutException
      else new_exception InternalServerErrorException)"

subsection \<open>An in-memory repository, for running the service\<close>

text \<open>
  A concrete set of collaborators on which the service can be evaluated: the store is a
  list of entities, \<^verbatim>\<open>save\<close> inserts or replaces by id and rejects a username
  held by another id with the unique-violation code, the hash of \<open>s\<close> is \<open>h:s\<close>,
  and the envelope is the total with the items.
\<close>

fun criteria_id :: "find_criteria \<Rightarrow> string" where
  "criteria_id (ById i) = i"
| "criteria_id (ByIdWithRelations i rs) = i"
| "criteria_id (WhereId i) = i"

definition mem_save :: "UserEntity \<Rightarrow> UserEntity list \<Rightarrow> (js_error + save_ok) \<times> UserEntity list" where
  "mem_save e db =
     (if list_ex (\<lambda>u. username u = username e \<and> user_id u \<noteq> user_id e) db
      then (Inl \<lparr>cls = OtherError ''QueryFailedError'', code = Some ''23505''\<rparr>, db)
      else (Inr \<lparr>returned = e, argument = e\<rparr>, e # filter (\<lambda>u. user_id u \<noteq> user_id e) db))"

definition mem_toDto :: "UserEntity \<Rightarrow> UserResponseDto" where
  "mem_toDto e =
     \<lparr>dto_id = user_id e, dto_username = username e, dto_status = status e,
      dto_roles = roles e, dto_permissions = permissions e\<rparr>"

definition mem_toUpdateEntity :: "UserEntity \<Rightarrow> UpdateUserRequestDto \<Rightarrow> UserEntity" where
  "mem_toUpdateEntity e d =
     e\<lparr>username := (case update_username d of None \<Rightarrow> username e | Some n \<Rightarrow> n),
       status := (case update_status d of None \<Rightarrow> status e | Some s \<Rightarrow> s),
       roles := (case update_roles d of None \<Rightarrow> roles e | Some r \<Rightarrow> r),
       permissions := (case update_permissions d of None \<Rightarrow> permissions e | Some q \<Rightarrow> q)\<rparr>"

definition mem_deps :: "(UserEntity list, int \<times> UserResponseDto list) deps" where
  "mem_deps =
     \<lparr>repo_findOne = (\<lambda>c db. Inr (find (\<lambda>u. user_id u = criteria_id c) db)),
      repo_getUsersAndCount = (\<lambda>p db. Inr (Some (take (limit p) (drop (skip p) db)), int (length db))),
      repo_save = mem_save,
      encrypt = (\<lambda>s. Inr (''h:'' @ s)),
      compare = (\<lambda>s h. Inr (h = ''h:'' @ s)),
      toCreateEntity = (\<lambda>d. Inr \<lparr>user_id = ''id-'' @ create_username d,
        username = create_username d, password = create_password d, status = Active,
        roles = create_roles d, permissions = create_permissions d\<rparr>),
      toCreateSimpleEntity = (\<lambda>d. Inr \<lparr>user_id = ''id-'' @ base_username d,
        username = base_username d, password = base_password d, status = Active,
        roles = [], permissions = []\<rparr>),
      toUpdateEntity = (\<lambda>e d. Inr (mem_toUpdateEntity e d)),
      toDto = (\<lambda>e. Returns (mem_toDto e)),
      toDtoWithRelations = (\<lambda>e.
        \<lparr>outcome = Inr (mem_toDto e), settled_at = length (username e)\<rparr>),
      Pagination_of = (\<lambda>p n ds. Inr (n, ds)),
      PgUniqueConstraintViolation = ''23505'',
      PgForeignKeyConstraintViolation = ''23503'',
      PgNotNullConstraintViolation = ''23502''\<rparr>"

definition alice :: UserEntity where
  "alice = \<lparr>user_id = ''U1'', username = ''alice'', password = ''h:p@ss1'', status = Active,
            roles = [''admin''], permissions = []\<rparr>"

definition bob :: UserEntity where
  "bob = \<lparr>user_id = ''U2'', username = ''bob'', password = ''h:hunter2'', status = Active,
          roles = [], permissions = [''read'']\<rparr>"

definition carol :: UserEntity where
  "carol = \<lparr>user_id = ''U3'', username = ''carol'', password = ''h:s3cret'', status = Blocked,
            roles = [''editor''], permissions = []\<rparr>"

definition world3 :: "UserEntity list world" where
  "world3 = \<lparr>store = [carol, alice, bob], trace = []\<rparr>"

definition world0 :: "UserEntity list world" where
  "world0 = \<lparr>store = [alice, bob], trace = []\<rparr>"

text \<open>Thrown values of the kinds the data layer produces.\<close>

definition timeout_error :: js_error where
  "timeout_error = \<lparr>cls = TimeoutError, code = None\<rparr>"

definition driver_error :: "string \<Rightarrow> js_error" where
  "driver_error c = \<lparr>cls = OtherError ''QueryFailedError'', code = Some c\<rparr>"

text \<open>
  A repository whose \<^verbatim>\<open>save\<close> resolves to a row loaded afresh, which differs from
  the object it was given; one whose \<^verbatim>\<open>save\<close> always reports a unique violation;
  and one whose fetch of a page times out.
\<close>

definition mem_deps_reload :: "(UserEntity list, int \<times> UserResponseDto list) deps" where
  "mem_deps_reload =
     mem_deps\<lparr>repo_save := (\<lambda>e db.
       (Inr \<lparr>returned = e\<lparr>roles := [''loaded-from-db'']\<rparr>, argument = e\<rparr>,
        e # filter (\<lambda>u. user_id u \<noteq> user_id e) db))\<rparr>"

definition mem_deps_conflict :: "(UserEntity list, int \<times> UserResponseDto list) deps" where
  "mem_deps_conflict = mem_deps\<lparr>repo_save := (\<lambda>e db. (Inl (driver_error ''23505''), db))\<rparr>"

definition mem_deps_timeout :: "(UserEntity list, int \<times> UserResponseDto list) deps" where
  "mem_deps_timeout = mem_deps\<lparr>repo_getUsersAndCount := (\<lambda>p db. Inl timeout_error)\<rparr>"

text \<open>
  A mapper whose promise for the first user rejects with a timeout and whose promise for
  the second user rejects earlier, with a connection failure; and a pagination helper
  that throws.
\<close>

definition mem_deps_bad_mapper :: "(UserEntity list, int \<times> UserResponseDto list) deps" where
  "mem_deps_bad_mapper =
     mem_deps\<lparr>toDtoWithRelations := (\<lambda>e.
       if user_id e = ''U1'' then \<lparr>outcome = Inl timeout_error, settled_at = 5\<rparr>
       else if user_id e = ''U2'' then \<lparr>outcome = Inl (driver_error ''08006''), settled_at = 2\<rparr>
       else \<lparr>outcome = Inr (mem_toDto e), settled_at = 1\<rparr>)\<rparr>"

definition mem_deps_bad_envelope :: "(UserEntity list, int \<times> UserResponseDto list) deps" where
  "mem_deps_bad_envelope =
     mem_deps\<lparr>Pagination_of := (\<lambda>p n ds. Inl \<lparr>cls = OtherError ''RangeError'', code = None\<rparr>)\<rparr>"

definition page0 :: PaginationRequest where
  "page0 = \<lparr>skip = 0, page = 1, limit = 10\<rparr>"

definition page_beyond :: PaginationRequest where
  "page_beyond = \<lparr>skip = 10, page = 2, limit = 10\<rparr>"

definition carol_dto :: CreateUserRequestDto where
  "carol_dto = \<lparr>create_username = ''carol'', create_password = ''s3cret'',
                create_roles = [''editor''], create_permissions = []\<rparr>"

definition alice_dto :: CreateUserRequestDto where
  "alice_dto = \<lparr>create_username = ''alice'', create_password = ''pw'',
                create_roles = [], create_permissions = []\<rparr>"

definition alice_base_dto :: CreateUserBaseRequestDto where
  "alice_base_dto = \<lparr>base_username = ''alice'', base_password = ''pw''\<rparr>"

definition empty_update :: UpdateUserRequestDto where
  "empty_update = \<lparr>update_username = None, update_status = None, update_roles = None,
                   update_permissions = None\<rparr>"

subsection \<open>The entity a create operation persists\<close>

text \<open>
  The entities a create operation hands to \<^verbatim>\<open>save\<close>, given the outcome of its
  mapping step: none when the mapping or the hashing failed, otherwise the mapped entity
  with its \<open>password\<close> replaced by what \<^verbatim>\<open>HashHelper.encrypt\<close> made of it.
  \<open>save_all\<close> is the store after saving these.
\<close>

definition hashed_entity :: "('db, 'env) deps \<Rightarrow> js_error + UserEntity \<Rightarrow> UserEntity list" where
  "hashed_entity D mapped =
     (case mapped of
        Inl _ \<Rightarrow> []
      | Inr e \<Rightarrow> (case encrypt D (password e) of Inl _ \<Rightarrow> [] | Inr h \<Rightarrow> [e\<lparr>password := h\<rparr>]))"

fun save_all :: "('db, 'env) deps \<Rightarrow> UserEntity list \<Rightarrow> 'db \<Rightarrow> 'db" where
  "save_all D [] db = db"
| "save_all D (e # es) db = save_all D es (snd (repo_save D e db))"

section \<open>Properties\<close>

subsection \<open>Auxiliary facts\<close>

lemmas io_defs =
  resolve_def throw_def await_def try_catch_def logged_def
  usersRepository_findOne_def usersRepository_getUsersAndCount_def usersRepository_save_def
  HashHelper_encrypt_def HashHelper_compare_def
  UserMapper_toCreateEntity_def UserMapper_toCreateSimpleEntity_def
  UserMapper_toUpdateEntity_def UserMapper_toDto_def UserMapper_toDtoWithRelations_def
  Promise_all_toDtoWithRelations_def Pagination_of_io_def Logger_error_io_def

lemmas catch_defs =
  getUsers_catch_def createUser_catch_def createUserBase_catch_def updateUser_catch_def
  changePassword_catch_def blockUser_catch_def

lemmas mem_defs =
  mem_deps_def mem_save_def mem_toDto_def mem_toUpdateEntity_def alice_def bob_def world0_def
  mem_deps_reload_def mem_deps_conflict_def mem_deps_timeout_def mem_deps_bad_mapper_def
  mem_deps_bad_envelope_def timeout_error_def driver_error_def page0_def page_beyond_def
  carol_dto_def alice_dto_def alice_base_dto_def empty_update_def carol_def world3_def

lemma cls_new_exception [simp]: "cls (new_exception c) = c"
  by (simp add: new_exception_def)

lemma code_new_exception [simp]: "code (new_exception c) = None"
  by (simp add: new_exception_def)

lemma new_exception_eq_iff [simp]: "new_exception c = new_exception d \<longleftrightarrow> c = d"
  by (simp add: new_exception_def)

lemma try_catch_caught:
  "body w = (Inl e, w') \<Longrightarrow> try_catch body handler w = handler e w'"
  by (simp add: try_catch_def)

lemma createUser_catch_spec:
  "fst (createUser_catch D userDto err w) = Inl (spec_create_failure D (create_username userDto) err)"
  by (simp add: createUser_catch_def spec_create_failure_def throw_def)

lemma createUserBase_catch_spec:
  "fst (createUserBase_catch D baseDto err w)
     = Inl (spec_create_failure D (base_username baseDto) err)"
  by (simp add: createUserBase_catch_def spec_create_failure_def throw_def await_def
      Logger_error_io_def)

lemma getUsers_catch_spec: "getUsers_catch err w = (Inl (spec_list_failure err), w)"
  by (simp add: getUsers_catch_def spec_list_failure_def throw_def)

lemma saved_entities_append:
  "saved_entities (cs @ ds) = saved_entities cs @ saved_entities ds"
  by (induction cs rule: saved_entities.induct) simp_all

lemma earliest_rejection_None_iff:
  "earliest_rejection ps = None \<longleftrightarrow> (\<forall>p \<in> set ps. \<exists>x. outcome p = Inr x)"
  by (induction ps) (auto split: sum.splits option.splits)

lemma earliest_rejection_Some:
  "earliest_rejection ps = Some (t, e) \<Longrightarrow>
     (\<exists>p \<in> set ps. outcome p = Inl e \<and> settled_at p = t)
     \<and> (\<forall>q \<in> set ps. \<forall>e'. outcome q = Inl e' \<longrightarrow> t \<le> settled_at q)"
proof (induction ps arbitrary: t e)
  case Nil
  then show ?case by simp
next
  case (Cons p ps)
  show ?case
  proof (cases "outcome p")
    case (Inr x)
    with Cons show ?thesis by auto
  next
    case rejected: (Inl e0)
    show ?thesis
    proof (cases "earliest_rejection ps")
      case None
      then have "\<forall>q \<in> set ps. \<exists>x. outcome q = Inr x"
        by (simp add: earliest_rejection_None_iff)
      with Cons.prems rejected None show ?thesis by auto
    next
      case (Some later)
      obtain t' e' where later: "later = (t', e')"
        by (cases later)
      from Cons.IH [of t' e'] Some later
      have IH: "(\<exists>q \<in> set ps. outcome q = Inl e' \<and> settled_at q = t')
         \<and> (\<forall>q \<in> set ps. \<forall>e''. outcome q = Inl e'' \<longrightarrow> t' \<le> settled_at q)"
        by simp
      show ?thesis
      proof (cases "settled_at p \<le> t'")
        case True
        with Cons.prems rejected Some later have "t = settled_at p" and "e = e0"
          by simp_all
        with rejected True IH show ?thesis by fastforce
      next
        case False
        with Cons.prems rejected Some later have "t = t'" and "e = e'"
          by simp_all
        with rejected False IH show ?thesis by fastforce
      qed
    qed
  qed
qed

lemma fulfilled_values_all:
  "map outcome ps = map Inr xs \<Longrightarrow> fulfilled_values ps = xs"
  by (induction ps arbitrary: xs) auto

lemma map_outcome_fulfilled:
  "\<forall>p \<in> set ps. \<exists>x. outcome p = Inr x \<Longrightarrow> map outcome ps = map Inr (fulfilled_values ps)"
  by (induction ps) auto

text \<open>When every promise is fulfilled, \<open>Promise_all\<close> is the array of the values.\<close>

lemma Promise_all_fulfilled:
  assumes "map outcome ps = map Inr xs"
  shows "Promise_all ps = Inr xs"
proof -
  have "\<forall>p \<in> set ps. \<exists>x. outcome p = Inr x"
  proof
    fix p
    assume "p \<in> set ps"
    then have "outcome p \<in> set (map outcome ps)"
      by simp
    with assms show "\<exists>x. outcome p = Inr x"
      by auto
  qed
  then have "earliest_rejection ps = None"
    by (simp add: earliest_rejection_None_iff)
  with assms show ?thesis
    by (simp add: Promise_all_def fulfilled_values_all)
qed

lemma Promise_all_Inr:
  assumes "Promise_all ps = Inr xs"
  shows "map outcome ps = map Inr xs"
proof -
  from assms have none: "earliest_rejection ps = None" and array: "fulfilled_values ps = xs"
    by (auto simp add: Promise_all_def split: option.splits)
  from none have "\<forall>p \<in> set ps. \<exists>x. outcome p = Inr x"
    by (simp add: earliest_rejection_None_iff)
  then have "map outcome ps = map Inr (fulfilled_values ps)"
    by (rule map_outcome_fulfilled)
  with array show ?thesis by simp
qed

text \<open>
  When \<open>Promise_all\<close> rejects, its reason is that of a rejected promise that settled no
  later than any other rejected one; and it rejects as soon as one promise does.
\<close>

lemma Promise_all_Inl:
  assumes "Promise_all ps = Inl e"
  shows "\<exists>p \<in> set ps. outcome p = Inl e
           \<and> (\<forall>q \<in> set ps. \<forall>e'. outcome q = Inl e' \<longrightarrow> settled_at p \<le> settled_at q)"
proof -
  from assms obtain t where "earliest_rejection ps = Some (t, e)"
    by (auto simp add: Promise_all_def split: option.splits)
  from earliest_rejection_Some [OF this] show ?thesis
    by blast
qed

lemma Promise_all_rejects:
  assumes "p \<in> set ps" and "outcome p = Inl e0"
  shows "\<exists>e. Promise_all ps = Inl e"
proof (cases "earliest_rejection ps")
  case None
  with assms show ?thesis
    by (auto simp add: earliest_rejection_None_iff)
next
  case (Some found)
  then show ?thesis
    by (cases found) (simp add: Promise_all_def)
qed

lemma Promise_all_first_settled:
  assumes member: "p \<in> set ps" and rejected: "outcome p = Inl e"
    and first: "\<forall>q \<in> set ps. \<forall>e'. q \<noteq> p \<and> outcome q = Inl e' \<longrightarrow> settled_at p < settled_at q"
  shows "Promise_all ps = Inl e"
proof -
  from Promise_all_rejects [OF member rejected] obtain e1 where all: "Promise_all ps = Inl e1"
    by blast
  from Promise_all_Inl [OF all] obtain p1 where p1: "p1 \<in> set ps" "outcome p1 = Inl e1"
    and least: "\<forall>q \<in> set ps. \<forall>e'. outcome q = Inl e' \<longrightarrow> settled_at p1 \<le> settled_at q"
    by blast
  have "p1 = p"
  proof (rule ccontr)
    assume "p1 \<noteq> p"
    with first p1 have "settled_at p < settled_at p1"
      by blast
    moreover from least member rejected have "settled_at p1 \<le> settled_at p"
      by blast
    ultimately show False by simp
  qed
  with p1 rejected all show ?thesis by simp
qed

lemma getUsers_mapping_rejected:
  assumes fetched: "repo_getUsersAndCount D p (store w) = Inr (Some es, n)"
    and page: "es \<noteq> []" "n \<noteq> 0"
    and rejected: "Promise_all (map (toDtoWithRelations D) es) = Inl err"
  shows "fst (getUsers D p w) = Inl (spec_list_failure err)"
proof -
  let ?w' = "w\<lparr>trace := trace w @ Repo_getUsersAndCount p # map Mapper_toDtoWithRelations es\<rparr>"
  from fetched page rejected have "getUsers D p w = getUsers_catch err ?w'"
    unfolding getUsers_def
    by (intro try_catch_caught) (simp add: io_defs)
  then show ?thesis
    by (simp add: getUsers_catch_spec)
qed

lemma getUsers_returns_only_mapped:
  assumes "fst (getUsers D p w) = Inr env"
  shows "\<exists>es n ds. repo_getUsersAndCount D p (store w) = Inr (Some es, n)
            \<and> es \<noteq> [] \<and> n \<noteq> 0
            \<and> map (\<lambda>e. outcome (toDtoWithRelations D e)) es = map Inr ds
            \<and> Pagination_of D p n ds = Inr env"
proof (cases "repo_getUsersAndCount D p (store w)")
  case (Inl err)
  with assms show ?thesis
    by (simp add: getUsers_def io_defs catch_defs split: if_splits)
next
  case (Inr fetched)
  obtain ues n where fetched: "fetched = (ues, n)"
    by (cases fetched)
  show ?thesis
  proof (cases ues)
    case None
    with assms Inr fetched show ?thesis
      by (simp add: getUsers_def io_defs catch_defs)
  next
    case (Some es)
    show ?thesis
    proof (cases "es = [] \<or> n = 0")
      case True
      with assms Inr fetched Some show ?thesis
        by (auto simp add: getUsers_def io_defs catch_defs)
    next
      case False
      show ?thesis
      proof (cases "Promise_all (map (toDtoWithRelations D) es)")
        case (Inl err)
        with assms \<open>repo_getUsersAndCount D p (store w) = Inr fetched\<close> fetched Some False
        show ?thesis
          by (simp add: getUsers_def io_defs catch_defs split: if_splits)
      next
        case mapped: (Inr ds)
        then have "map outcome (map (toDtoWithRelations D) es) = map Inr ds"
          by (rule Promise_all_Inr)
        then have elementwise: "map (\<lambda>e. outcome (toDtoWithRelations D e)) es = map Inr ds"
          by (simp add: comp_def)
        from assms Inr fetched Some False mapped
        have "Pagination_of D p n ds = Inr env"
          by (simp add: getUsers_def io_defs catch_defs split: sum.splits if_splits)
        with Inr fetched Some False elementwise show ?thesis
          by blast
      qed
    qed
  qed
qed

subsection \<open>Change password\<close>

text \<open>
  C1. When the user with the given id exists and the supplied current password does not
  verify against the stored hash, \<^verbatim>\<open>changePassword\<close> fails with
  \<open>InvalidCurrentPasswordException\<close>. The only calls made are the fetch and the
  comparison: nothing is handed to \<^verbatim>\<open>save\<close> and the store is as before. The
  result is this exception whatever the other collaborators would do, and it is not an
  error the catch block of the operation can produce: the failure does not pass through
  the generic translation.
\<close>

theorem changePassword_wrong_current_password:
  assumes found: "repo_findOne D (WhereId userId) (store w) = Inr (Some userEntity)"
    and mismatch: "compare D (currentPassword request) (password userEntity) = Inr False"
  shows "changePassword D request userId w =
           (Inl (new_exception InvalidCurrentPasswordException),
            w\<lparr>trace := trace w @ [Repo_findOne (WhereId userId),
                 Hash_compare (currentPassword request) (password userEntity)]\<rparr>)
         \<and> store (snd (changePassword D request userId w)) = store w
         \<and> saved_entities (trace (snd (changePassword D request userId w)))
             = saved_entities (trace w)
         \<and> fst (changePassword_catch err w')
             \<noteq> (Inl (new_exception InvalidCurrentPasswordException) :: js_error + UserResponseDto)"
proof -
  have run: "changePassword D request userId w =
           (Inl (new_exception InvalidCurrentPasswordException),
            w\<lparr>trace := trace w @ [Repo_findOne (WhereId userId),
                 Hash_compare (currentPassword request) (password userEntity)]\<rparr>)"
    using found mismatch
    by (simp add: changePassword_def await_def throw_def logged_def
        usersRepository_findOne_def HashHelper_compare_def)
  have untranslated: "fst (changePassword_catch err w')
      \<noteq> (Inl (new_exception InvalidCurrentPasswordException) :: js_error + UserResponseDto)"
    by (simp add: changePassword_catch_def throw_def)
  from untranslated show ?thesis
    unfolding run by (simp add: saved_entities_append)
qed

theorem changePassword_wrong_current_password_witness:
  "repo_findOne mem_deps (WhereId ''U1'') (store world0) = Inr (Some alice)
   \<and> compare mem_deps (currentPassword \<lparr>currentPassword = ''guess'', newPassword = ''n3w''\<rparr>)
        (password alice) = Inr False
   \<and> changePassword mem_deps \<lparr>currentPassword = ''guess'', newPassword = ''n3w''\<rparr> ''U1'' world0
       = (Inl (new_exception InvalidCurrentPasswordException),
          \<lparr>store = [alice, bob],
           trace = [Repo_findOne (WhereId ''U1''), Hash_compare ''guess'' ''h:p@ss1'']\<rparr>)"
proof -
  have found: "repo_findOne mem_deps (WhereId ''U1'') (store world0) = Inr (Some alice)"
    by (simp add: mem_defs)
  have mismatch:
    "compare mem_deps (currentPassword \<lparr>currentPassword = ''guess'', newPassword = ''n3w''\<rparr>)
       (password alice) = Inr False"
    by (simp add: mem_defs)
  from changePassword_wrong_current_password
    [OF found mismatch, where err = timeout_error and ?w' = world0] found mismatch
  show ?thesis by (simp add: alice_def world0_def)
qed

subsection \<open>Create\<close>

text \<open>
  C2. In both create operations, what is handed to \<^verbatim>\<open>save\<close> is the mapped entity
  with its \<open>password\<close> replaced by the result of \<^verbatim>\<open>HashHelper.encrypt\<close> on the
  mapped entity's password, and that is the only \<^verbatim>\<open>save\<close> of the run; when the
  mapping or the hashing fails nothing is saved. The store changes by this
  \<^verbatim>\<open>save\<close> alone, so the plaintext is never persisted.
\<close>

theorem create_persists_hashed_credential:
  "saved_entities (trace (snd (createUser D userDto w)))
     = saved_entities (trace w) @ hashed_entity D (toCreateEntity D userDto)
   \<and> store (snd (createUser D userDto w))
     = save_all D (hashed_entity D (toCreateEntity D userDto)) (store w)
   \<and> saved_entities (trace (snd (createUserBase D baseDto w)))
     = saved_entities (trace w) @ hashed_entity D (toCreateSimpleEntity D baseDto)
   \<and> store (snd (createUserBase D baseDto w))
     = save_all D (hashed_entity D (toCreateSimpleEntity D baseDto)) (store w)"
proof (intro conjI)
  show "saved_entities (trace (snd (createUser D userDto w)))
     = saved_entities (trace w) @ hashed_entity D (toCreateEntity D userDto)"
    by (auto simp add: createUser_def io_defs catch_defs hashed_entity_def saved_entities_append
        split: sum.splits prod.splits completion.splits)
  show "store (snd (createUser D userDto w))
     = save_all D (hashed_entity D (toCreateEntity D userDto)) (store w)"
    by (auto simp add: createUser_def io_defs catch_defs hashed_entity_def
        split: sum.splits prod.splits completion.splits)
  show "saved_entities (trace (snd (createUserBase D baseDto w)))
     = saved_entities (trace w) @ hashed_entity D (toCreateSimpleEntity D baseDto)"
    by (auto simp add: createUserBase_def io_defs catch_defs hashed_entity_def saved_entities_append
        split: sum.splits prod.splits completion.splits)
  show "store (snd (createUserBase D baseDto w))
     = save_all D (hashed_entity D (toCreateSimpleEntity D baseDto)) (store w)"
    by (auto simp add: createUserBase_def io_defs catch_defs hashed_entity_def
        split: sum.splits prod.splits completion.splits)
qed

theorem create_persists_hashed_credential_witness:
  "map password (saved_entities (trace (snd (createUser mem_deps carol_dto world0))))
     = [''h:s3cret'']
   \<and> map password (store (snd (createUser mem_deps carol_dto world0)))
     = [''h:s3cret'', ''h:p@ss1'', ''h:hunter2'']
   \<and> map password (saved_entities (trace (snd (createUserBase mem_deps
        \<lparr>base_username = ''dave'', base_password = ''letmein''\<rparr> world0))))
     = [''h:letmein'']
   \<and> map password (store (snd (createUserBase mem_deps
        \<lparr>base_username = ''dave'', base_password = ''letmein''\<rparr> world0)))
     = [''h:letmein'', ''h:p@ss1'', ''h:hunter2'']"
  using create_persists_hashed_credential
    [of mem_deps carol_dto world0 "\<lparr>base_username = ''dave'', base_password = ''letmein''\<rparr>"]
  by (simp add: hashed_entity_def mem_defs)

text \<open>
  C3. The catch blocks of \<^verbatim>\<open>createUser\<close> and \<^verbatim>\<open>createUserBase\<close> translate
  every error alike, as the specification's mapping says: \<open>UserExists\<close> with the
  requested username for the unique-violation code, \<open>ForeignKeyConflict\<close> for the
  foreign-key and not-null codes, \<open>RequestTimeout\<close> for a timeout, \<open>InternalError\<close>
  otherwise. A failure of \<^verbatim>\<open>save\<close> reaches these blocks: the operation then fails
  with the translation of that failure, in either variant.
\<close>

theorem create_variants_same_error_mapping:
  "fst (createUser_catch D userDto err w1)
     = Inl (spec_create_failure D (create_username userDto) err)
   \<and> fst (createUserBase_catch D baseDto err w2)
     = Inl (spec_create_failure D (base_username baseDto) err)
   \<and> (toCreateEntity D userDto = Inr e1 \<and> encrypt D (password e1) = Inr h1
        \<and> repo_save D (e1\<lparr>password := h1\<rparr>) (store w1) = (Inl err, db1)
      \<longrightarrow> fst (createUser D userDto w1)
            = Inl (spec_create_failure D (create_username userDto) err))
   \<and> (toCreateSimpleEntity D baseDto = Inr e2 \<and> encrypt D (password e2) = Inr h2
        \<and> repo_save D (e2\<lparr>password := h2\<rparr>) (store w2) = (Inl err, db2)
      \<longrightarrow> fst (createUserBase D baseDto w2)
            = Inl (spec_create_failure D (base_username baseDto) err))"
proof (intro conjI impI)
  show "fst (createUser_catch D userDto err w1)
     = Inl (spec_create_failure D (create_username userDto) err)"
    by (rule createUser_catch_spec)
  show "fst (createUserBase_catch D baseDto err w2)
     = Inl (spec_create_failure D (base_username baseDto) err)"
    by (rule createUserBase_catch_spec)
next
  assume fails: "toCreateEntity D userDto = Inr e1 \<and> encrypt D (password e1) = Inr h1
        \<and> repo_save D (e1\<lparr>password := h1\<rparr>) (store w1) = (Inl err, db1)"
  let ?w' = "w1\<lparr>store := db1, trace := trace w1 @ [Mapper_toCreateEntity userDto,
      Hash_encrypt (password e1), Repo_save (e1\<lparr>password := h1\<rparr>)]\<rparr>"
  from fails have "createUser D userDto w1 = createUser_catch D userDto err ?w'"
    unfolding createUser_def
    by (intro try_catch_caught) (simp add: io_defs)
  then show "fst (createUser D userDto w1)
            = Inl (spec_create_failure D (create_username userDto) err)"
    by (simp add: createUser_catch_spec)
next
  assume fails: "toCreateSimpleEntity D baseDto = Inr e2 \<and> encrypt D (password e2) = Inr h2
        \<and> repo_save D (e2\<lparr>password := h2\<rparr>) (store w2) = (Inl err, db2)"
  let ?w' = "w2\<lparr>store := db2, trace := trace w2 @ [Mapper_toCreateSimpleEntity baseDto,
      Hash_encrypt (password e2), Repo_save (e2\<lparr>password := h2\<rparr>)]\<rparr>"
  from fails have "createUserBase D baseDto w2 = createUserBase_catch D baseDto err ?w'"
    unfolding createUserBase_def
    by (intro try_catch_caught) (simp add: io_defs)
  then show "fst (createUserBase D baseDto w2)
            = Inl (spec_create_failure D (base_username baseDto) err)"
    by (simp add: createUserBase_catch_spec)
qed

theorem create_variants_same_error_mapping_witness:
  "repo_save mem_deps
     \<lparr>user_id = ''id-alice'', username = ''alice'', password = ''h:pw'', status = Active,
      roles = [], permissions = []\<rparr> (store world0)
     = (Inl (driver_error ''23505''), [alice, bob])
   \<and> fst (createUser mem_deps alice_dto world0)
     = Inl (new_exception (UserExistsException (Some ''alice'')))
   \<and> fst (createUserBase mem_deps alice_base_dto world0)
     = Inl (new_exception (UserExistsException (Some ''alice'')))
   \<and> fst (createUser_catch mem_deps alice_dto timeout_error world0)
     = Inl (new_exception RequestTimeoutException)
   \<and> fst (createUserBase_catch mem_deps alice_base_dto timeout_error world0)
     = Inl (new_exception RequestTimeoutException)"
proof -
  let ?e = "\<lparr>user_id = ''id-alice'', username = ''alice'', password = ''pw'', status = Active,
        roles = [], permissions = []\<rparr>"
  note at_alice = create_variants_same_error_mapping
    [where D = mem_deps and userDto = alice_dto and baseDto = alice_base_dto
       and ?w1.0 = world0 and ?w2.0 = world0 and ?e1.0 = ?e and ?e2.0 = ?e
       and ?h1.0 = "''h:pw''" and ?h2.0 = "''h:pw''"
       and ?db1.0 = "[alice, bob]" and ?db2.0 = "[alice, bob]"]
  have mapped: "toCreateEntity mem_deps alice_dto = Inr ?e"
    by (simp add: mem_defs)
  have mapped_base: "toCreateSimpleEntity mem_deps alice_base_dto = Inr ?e"
    by (simp add: mem_defs)
  have hash: "encrypt mem_deps (password ?e) = Inr ''h:pw''"
    by (simp add: mem_defs)
  have conflict: "repo_save mem_deps (?e\<lparr>password := ''h:pw''\<rparr>) (store world0)
             = (Inl (driver_error ''23505''), [alice, bob])"
    by (simp add: mem_defs)
  have unique_case: "spec_create_failure mem_deps ''alice'' (driver_error ''23505'')
      = new_exception (UserExistsException (Some ''alice''))"
    by (simp add: spec_create_failure_def mem_deps_def driver_error_def)
  have timeout: "spec_create_failure mem_deps ''alice'' timeout_error
      = new_exception RequestTimeoutException"
    by (simp add: spec_create_failure_def mem_deps_def timeout_error_def)
  from at_alice [where err = "driver_error ''23505''"] mapped mapped_base hash conflict unique_case
  have "fst (createUser mem_deps alice_dto world0)
          = Inl (new_exception (UserExistsException (Some ''alice'')))"
    and "fst (createUserBase mem_deps alice_base_dto world0)
          = Inl (new_exception (UserExistsException (Some ''alice'')))"
    by (simp_all add: alice_dto_def alice_base_dto_def)
  moreover from at_alice [where err = timeout_error] timeout
  have "fst (createUser_catch mem_deps alice_dto timeout_error world0)
          = Inl (new_exception RequestTimeoutException)"
    and "fst (createUserBase_catch mem_deps alice_base_dto timeout_error world0)
          = Inl (new_exception RequestTimeoutException)"
    by (simp_all add: alice_dto_def alice_base_dto_def)
  moreover note conflict
  ultimately show ?thesis by simp
qed

subsection \<open>List\<close>

text \<open>
  C4. When the repository resolves to an absent or empty entity list, or to a total of
  zero, \<^verbatim>\<open>getUsers\<close> fails with \<open>NotFoundException\<close>. Neither the mapper nor the
  pagination helper is called, so no envelope, empty or not, is built.
\<close>

theorem getUsers_empty_page_NotFound:
  assumes fetched: "repo_getUsersAndCount D pagination (store w) = Inr (userEntities, totalUsers)"
    and empty: "userEntities = None \<or> userEntities = Some [] \<or> totalUsers = 0"
  shows "getUsers D pagination w =
           (Inl (new_exception NotFoundException),
            w\<lparr>trace := trace w @ [Repo_getUsersAndCount pagination]\<rparr>)"
  using fetched empty by (auto simp add: getUsers_def io_defs catch_defs split: option.splits)

theorem getUsers_empty_page_NotFound_witness:
  "repo_getUsersAndCount mem_deps page_beyond (store world0) = Inr (Some [], 2)
   \<and> getUsers mem_deps page_beyond world0 =
       (Inl (new_exception NotFoundException),
        \<lparr>store = [alice, bob], trace = [Repo_getUsersAndCount page_beyond]\<rparr>)"
proof -
  have fetched: "repo_getUsersAndCount mem_deps page_beyond (store world0) = Inr (Some [], 2)"
    by (simp add: mem_defs)
  have empty: "Some ([] :: UserEntity list) = None \<or> Some ([] :: UserEntity list) = Some []
      \<or> (2 :: int) = 0"
    by simp
  from getUsers_empty_page_NotFound [OF fetched empty] fetched
  show ?thesis by (simp add: world0_def)
qed

text \<open>
  C5. The catch block of \<^verbatim>\<open>getUsers\<close> translates an error as the specification's
  mapping says: a \<open>NotFoundException\<close> stays \<open>NotFoundException\<close>, a \<open>TimeoutError\<close>
  becomes \<open>RequestTimeoutException\<close>, anything else becomes
  \<open>InternalServerErrorException\<close>. An error of the fetch reaches the caller translated
  so. When the mapping promise of an entity of the page rejects and settles before every
  other rejecting one, its reason is the error translated; in any case, when some mapping
  promise rejects, the error translated is the reason of a rejected mapping promise that
  settled no later than the others. When all entities map and the pagination helper
  throws, its error is the one translated. The \<open>NotFoundException\<close> the service itself
  throws for an empty page reaches the caller as \<open>NotFoundException\<close>. Whatever the
  collaborators do, \<^verbatim>\<open>getUsers\<close> fails with one of these three or returns an
  envelope.
\<close>

theorem getUsers_failure_surface:
  "fst (getUsers_catch err w) = Inl (spec_list_failure err)
   \<and> (repo_getUsersAndCount D p (store w) = Inl err
      \<longrightarrow> fst (getUsers D p w) = Inl (spec_list_failure err))
   \<and> (repo_getUsersAndCount D p (store w) = Inr (Some es, n) \<and> es \<noteq> [] \<and> n \<noteq> 0
        \<and> e \<in> set es \<and> outcome (toDtoWithRelations D e) = Inl err
        \<and> (\<forall>e' \<in> set es. \<forall>err'. e' \<noteq> e \<and> outcome (toDtoWithRelations D e') = Inl err'
              \<longrightarrow> settled_at (toDtoWithRelations D e) < settled_at (toDtoWithRelations D e'))
      \<longrightarrow> fst (getUsers D p w) = Inl (spec_list_failure err))
   \<and> (repo_getUsersAndCount D p (store w) = Inr (Some es, n) \<and> es \<noteq> [] \<and> n \<noteq> 0
        \<and> e \<in> set es \<and> outcome (toDtoWithRelations D e) = Inl err
      \<longrightarrow> (\<exists>e1 \<in> set es. \<exists>err1.
             outcome (toDtoWithRelations D e1) = Inl err1
             \<and> (\<forall>e' \<in> set es. \<forall>err'. outcome (toDtoWithRelations D e') = Inl err'
                   \<longrightarrow> settled_at (toDtoWithRelations D e1) \<le> settled_at (toDtoWithRelations D e'))
             \<and> fst (getUsers D p w) = Inl (spec_list_failure err1)))
   \<and> (repo_getUsersAndCount D p (store w) = Inr (Some es, n) \<and> es \<noteq> [] \<and> n \<noteq> 0
        \<and> map (\<lambda>e. outcome (toDtoWithRelations D e)) es = map Inr ds
        \<and> Pagination_of D p n ds = Inl err
      \<longrightarrow> fst (getUsers D p w) = Inl (spec_list_failure err))
   \<and> (repo_getUsersAndCount D p (store w) = Inr (ues, n)
        \<and> (ues = None \<or> ues = Some [] \<or> n = 0)
      \<longrightarrow> fst (getUsers D p w) = Inl (new_exception NotFoundException))
   \<and> (case fst (getUsers D p w) of
         Inr env \<Rightarrow> True
       | Inl e \<Rightarrow> e \<in> {new_exception NotFoundException, new_exception RequestTimeoutException,
                        new_exception InternalServerErrorException})"
proof (intro conjI impI)
  show "fst (getUsers_catch err w) = Inl (spec_list_failure err)"
    by (simp add: getUsers_catch_spec)
next
  assume "repo_getUsersAndCount D p (store w) = Inl err"
  then have "getUsers D p w = getUsers_catch err (logged (Repo_getUsersAndCount p) w)"
    unfolding getUsers_def
    by (intro try_catch_caught) (simp add: await_def usersRepository_getUsersAndCount_def)
  then show "fst (getUsers D p w) = Inl (spec_list_failure err)"
    by (simp add: getUsers_catch_spec)
next
  assume first: "repo_getUsersAndCount D p (store w) = Inr (Some es, n) \<and> es \<noteq> [] \<and> n \<noteq> 0
        \<and> e \<in> set es \<and> outcome (toDtoWithRelations D e) = Inl err
        \<and> (\<forall>e' \<in> set es. \<forall>err'. e' \<noteq> e \<and> outcome (toDtoWithRelations D e') = Inl err'
              \<longrightarrow> settled_at (toDtoWithRelations D e) < settled_at (toDtoWithRelations D e'))"
  let ?ps = "map (toDtoWithRelations D) es"
  from first have member: "toDtoWithRelations D e \<in> set ?ps"
    by simp
  have others: "\<forall>q \<in> set ?ps. \<forall>e'. q \<noteq> toDtoWithRelations D e \<and> outcome q = Inl e'
      \<longrightarrow> settled_at (toDtoWithRelations D e) < settled_at q"
  proof (intro ballI allI impI)
    fix q err'
    assume q: "q \<in> set ?ps" and other: "q \<noteq> toDtoWithRelations D e \<and> outcome q = Inl err'"
    from q obtain e' where e': "e' \<in> set es" "q = toDtoWithRelations D e'"
      by auto
    with other have "e' \<noteq> e" and "outcome (toDtoWithRelations D e') = Inl err'"
      by auto
    with first e' show "settled_at (toDtoWithRelations D e) < settled_at q"
      by blast
  qed
  from first have "outcome (toDtoWithRelations D e) = Inl err"
    by simp
  with member others have "Promise_all ?ps = Inl err"
    by (intro Promise_all_first_settled)
  moreover from first have "repo_getUsersAndCount D p (store w) = Inr (Some es, n)"
    and "es \<noteq> []" and "n \<noteq> 0"
    by blast+
  ultimately show "fst (getUsers D p w) = Inl (spec_list_failure err)"
    by (intro getUsers_mapping_rejected)
next
  assume some: "repo_getUsersAndCount D p (store w) = Inr (Some es, n) \<and> es \<noteq> [] \<and> n \<noteq> 0
        \<and> e \<in> set es \<and> outcome (toDtoWithRelations D e) = Inl err"
  let ?ps = "map (toDtoWithRelations D) es"
  from some have "toDtoWithRelations D e \<in> set ?ps" and "outcome (toDtoWithRelations D e) = Inl err"
    by simp_all
  then obtain err1 where all: "Promise_all ?ps = Inl err1"
    using Promise_all_rejects by blast
  from Promise_all_Inl [OF all] obtain e1 where e1: "e1 \<in> set es"
      "outcome (toDtoWithRelations D e1) = Inl err1"
    and least: "\<forall>q \<in> set ?ps. \<forall>e'. outcome q = Inl e'
        \<longrightarrow> settled_at (toDtoWithRelations D e1) \<le> settled_at q"
    by auto
  from some have "repo_getUsersAndCount D p (store w) = Inr (Some es, n)"
    and "es \<noteq> []" and "n \<noteq> 0"
    by blast+
  with all have "fst (getUsers D p w) = Inl (spec_list_failure err1)"
    by (intro getUsers_mapping_rejected)
  with e1 least
  show "\<exists>e1 \<in> set es. \<exists>err1.
             outcome (toDtoWithRelations D e1) = Inl err1
             \<and> (\<forall>e' \<in> set es. \<forall>err'. outcome (toDtoWithRelations D e') = Inl err'
                   \<longrightarrow> settled_at (toDtoWithRelations D e1) \<le> settled_at (toDtoWithRelations D e'))
             \<and> fst (getUsers D p w) = Inl (spec_list_failure err1)"
    by auto
next
  assume envelope: "repo_getUsersAndCount D p (store w) = Inr (Some es, n) \<and> es \<noteq> [] \<and> n \<noteq> 0
        \<and> map (\<lambda>e. outcome (toDtoWithRelations D e)) es = map Inr ds
        \<and> Pagination_of D p n ds = Inl err"
  then have "map outcome (map (toDtoWithRelations D) es) = map Inr ds"
    by (simp add: comp_def)
  then have mapped: "Promise_all (map (toDtoWithRelations D) es) = Inr ds"
    by (rule Promise_all_fulfilled)
  let ?w' = "w\<lparr>trace := trace w @ Repo_getUsersAndCount p # map Mapper_toDtoWithRelations es
      @ [Pagination_of_call p n ds]\<rparr>"
  from envelope mapped have "getUsers D p w = getUsers_catch err ?w'"
    unfolding getUsers_def
    by (intro try_catch_caught) (simp add: io_defs)
  then show "fst (getUsers D p w) = Inl (spec_list_failure err)"
    by (simp add: getUsers_catch_spec)
next
  assume empty: "repo_getUsersAndCount D p (store w) = Inr (ues, n)
        \<and> (ues = None \<or> ues = Some [] \<or> n = 0)"
  then have "getUsers D p w
      = getUsers_catch (new_exception NotFoundException) (logged (Repo_getUsersAndCount p) w)"
    unfolding getUsers_def
    by (intro try_catch_caught)
      (auto simp add: await_def throw_def usersRepository_getUsersAndCount_def
        split: option.splits)
  then show "fst (getUsers D p w) = Inl (new_exception NotFoundException)"
    by (simp add: getUsers_catch_spec spec_list_failure_def)
next
  show "case fst (getUsers D p w) of
         Inr env \<Rightarrow> True
       | Inl e \<Rightarrow> e \<in> {new_exception NotFoundException, new_exception RequestTimeoutException,
                        new_exception InternalServerErrorException}"
    by (auto simp add: getUsers_def io_defs getUsers_catch_def
        split: option.splits sum.splits prod.splits)
qed

theorem getUsers_failure_surface_witness:
  "repo_getUsersAndCount mem_deps_timeout page0 (store world0) = Inl timeout_error
   \<and> fst (getUsers mem_deps_timeout page0 world0) = Inl (new_exception RequestTimeoutException)
   \<and> repo_getUsersAndCount mem_deps_bad_mapper page0 (store world3)
       = Inr (Some [carol, alice, bob], 3)
   \<and> toDtoWithRelations mem_deps_bad_mapper alice
       = \<lparr>outcome = Inl timeout_error, settled_at = 5\<rparr>
   \<and> toDtoWithRelations mem_deps_bad_mapper bob
       = \<lparr>outcome = Inl (driver_error ''08006''), settled_at = 2\<rparr>
   \<and> fst (getUsers mem_deps_bad_mapper page0 world3)
       = Inl (new_exception InternalServerErrorException)
   \<and> Pagination_of mem_deps_bad_envelope page0 2 [mem_toDto alice, mem_toDto bob]
       = Inl \<lparr>cls = OtherError ''RangeError'', code = None\<rparr>
   \<and> fst (getUsers mem_deps_bad_envelope page0 world0)
       = Inl (new_exception InternalServerErrorException)
   \<and> repo_getUsersAndCount mem_deps page_beyond (store world0) = Inr (Some [], 2)
   \<and> fst (getUsers mem_deps page_beyond world0) = Inl (new_exception NotFoundException)"
proof -
  have fetch_timeout:
    "repo_getUsersAndCount mem_deps_timeout page0 (store world0) = Inl timeout_error"
    by (simp add: mem_defs)
  have timeout: "fst (getUsers mem_deps_timeout page0 world0)
      = Inl (new_exception RequestTimeoutException)"
    using getUsers_failure_surface
      [where D = mem_deps_timeout and p = page0 and w = world0 and err = timeout_error
         and es = "[]" and n = 0 and ds = "[]" and ues = None and e = alice,
         THEN conjunct2, THEN conjunct1]
      fetch_timeout
    by (simp add: spec_list_failure_def timeout_error_def)
  have fetch_mapper:
    "repo_getUsersAndCount mem_deps_bad_mapper page0 (store world3)
       = Inr (Some [carol, alice, bob], 3)"
    by (simp add: mem_defs)
  have promise_carol: "toDtoWithRelations mem_deps_bad_mapper carol
       = \<lparr>outcome = Inr (mem_toDto carol), settled_at = 1\<rparr>"
    by (simp add: mem_deps_bad_mapper_def mem_deps_def carol_def)
  have promise_alice: "toDtoWithRelations mem_deps_bad_mapper alice
       = \<lparr>outcome = Inl timeout_error, settled_at = 5\<rparr>"
    by (simp add: mem_deps_bad_mapper_def mem_deps_def alice_def)
  have promise_bob: "toDtoWithRelations mem_deps_bad_mapper bob
       = \<lparr>outcome = Inl (driver_error ''08006''), settled_at = 2\<rparr>"
    by (simp add: mem_deps_bad_mapper_def mem_deps_def bob_def)
  have bob_first: "\<forall>e' \<in> set [carol, alice, bob]. \<forall>err'.
      e' \<noteq> bob \<and> outcome (toDtoWithRelations mem_deps_bad_mapper e') = Inl err'
      \<longrightarrow> settled_at (toDtoWithRelations mem_deps_bad_mapper bob)
            < settled_at (toDtoWithRelations mem_deps_bad_mapper e')"
    by (simp add: promise_carol promise_alice promise_bob)
  have mapper: "fst (getUsers mem_deps_bad_mapper page0 world3)
      = Inl (new_exception InternalServerErrorException)"
    using getUsers_failure_surface
      [where D = mem_deps_bad_mapper and p = page0 and w = world3
         and es = "[carol, alice, bob]" and n = 3 and e = bob
         and err = "driver_error ''08006''" and ds = "[]" and ues = None,
         THEN conjunct2, THEN conjunct2, THEN conjunct1]
      fetch_mapper promise_bob bob_first
    by (simp add: spec_list_failure_def driver_error_def)
  have fetch_envelope:
    "repo_getUsersAndCount mem_deps_bad_envelope page0 (store world0)
       = Inr (Some [alice, bob], 2)"
    by (simp add: mem_defs)
  have mapping_ok: "map (\<lambda>e. outcome (toDtoWithRelations mem_deps_bad_envelope e)) [alice, bob]
       = map Inr [mem_toDto alice, mem_toDto bob]"
    by (simp add: mem_deps_bad_envelope_def mem_deps_def)
  have envelope_fails:
    "Pagination_of mem_deps_bad_envelope page0 2 [mem_toDto alice, mem_toDto bob]
       = Inl \<lparr>cls = OtherError ''RangeError'', code = None\<rparr>"
    by (simp add: mem_deps_bad_envelope_def mem_deps_def)
  have envelope: "fst (getUsers mem_deps_bad_envelope page0 world0)
      = Inl (new_exception InternalServerErrorException)"
    using getUsers_failure_surface
      [where D = mem_deps_bad_envelope and p = page0 and w = world0 and es = "[alice, bob]"
         and n = 2 and ds = "[mem_toDto alice, mem_toDto bob]"
         and err = "\<lparr>cls = OtherError ''RangeError'', code = None\<rparr>" and ues = None
         and e = alice,
         THEN conjunct2, THEN conjunct2, THEN conjunct2, THEN conjunct2, THEN conjunct1]
      fetch_envelope mapping_ok envelope_fails
    by (simp add: spec_list_failure_def)
  have fetch_empty:
    "repo_getUsersAndCount mem_deps page_beyond (store world0) = Inr (Some [], 2)"
    by (simp add: mem_defs)
  have empty: "fst (getUsers mem_deps page_beyond world0) = Inl (new_exception NotFoundException)"
    using getUsers_failure_surface
      [where D = mem_deps and p = page_beyond and w = world0 and ues = "Some []" and n = 2
         and es = "[]" and ds = "[]" and err = timeout_error and e = alice,
         THEN conjunct2, THEN conjunct2, THEN conjunct2, THEN conjunct2, THEN conjunct2,
         THEN conjunct1]
      fetch_empty
    by simp
  from fetch_timeout timeout fetch_mapper promise_alice promise_bob mapper envelope_fails
    envelope fetch_empty empty
  show ?thesis by blast
qed

text \<open>
  C8. For a non-empty page with a non-zero total whose entities all map, entity \<open>i\<close>
  to the DTO \<open>ds ! i\<close>, \<^verbatim>\<open>getUsers\<close> returns the envelope \<^verbatim>\<open>Pagination.of\<close>
  builds from the sequence \<open>ds\<close>: the DTOs stand in the order of the fetch, whatever the
  order in which the mapping promises were fulfilled. Every envelope \<^verbatim>\<open>getUsers\<close>
  returns is built this way.
\<close>

theorem getUsers_preserves_fetch_order:
  "(repo_getUsersAndCount D p (store w) = Inr (Some es, n) \<and> es \<noteq> [] \<and> n \<noteq> 0
      \<and> map (\<lambda>e. outcome (toDtoWithRelations D e)) es = map Inr ds
      \<and> Pagination_of D p n ds = Inr env
    \<longrightarrow> getUsers D p w =
           (Inr env, w\<lparr>trace := trace w @ Repo_getUsersAndCount p
                # map Mapper_toDtoWithRelations es @ [Pagination_of_call p n ds]\<rparr>)
         \<and> length ds = length es
         \<and> (\<forall>i < length es. outcome (toDtoWithRelations D (es ! i)) = Inr (ds ! i)))
   \<and> (fst (getUsers D p w) = Inr env'
    \<longrightarrow> (\<exists>es' n' ds'.
           repo_getUsersAndCount D p (store w) = Inr (Some es', n') \<and> es' \<noteq> [] \<and> n' \<noteq> 0
           \<and> map (\<lambda>e. outcome (toDtoWithRelations D e)) es' = map Inr ds'
           \<and> Pagination_of D p n' ds' = Inr env'))"
proof (intro conjI impI)
  assume page: "repo_getUsersAndCount D p (store w) = Inr (Some es, n) \<and> es \<noteq> [] \<and> n \<noteq> 0
      \<and> map (\<lambda>e. outcome (toDtoWithRelations D e)) es = map Inr ds
      \<and> Pagination_of D p n ds = Inr env"
  then have elementwise: "map (\<lambda>e. outcome (toDtoWithRelations D e)) es = map Inr ds"
    by simp
  then have "map outcome (map (toDtoWithRelations D) es) = map Inr ds"
    by (simp add: comp_def)
  then have mapped: "Promise_all (map (toDtoWithRelations D) es) = Inr ds"
    by (rule Promise_all_fulfilled)
  from page mapped show "getUsers D p w =
           (Inr env, w\<lparr>trace := trace w @ Repo_getUsersAndCount p
                # map Mapper_toDtoWithRelations es @ [Pagination_of_call p n ds]\<rparr>)"
    by (simp add: getUsers_def io_defs)
  show len: "length ds = length es"
    using arg_cong [OF elementwise, of length] by simp
  show "\<forall>i < length es. outcome (toDtoWithRelations D (es ! i)) = Inr (ds ! i)"
  proof (intro allI impI)
    fix i
    assume "i < length es"
    with len show "outcome (toDtoWithRelations D (es ! i)) = Inr (ds ! i)"
      using arg_cong [OF elementwise, of "\<lambda>xs. xs ! i"] by simp
  qed
next
  assume "fst (getUsers D p w) = Inr env'"
  then show "\<exists>es' n' ds'.
           repo_getUsersAndCount D p (store w) = Inr (Some es', n') \<and> es' \<noteq> [] \<and> n' \<noteq> 0
           \<and> map (\<lambda>e. outcome (toDtoWithRelations D e)) es' = map Inr ds'
           \<and> Pagination_of D p n' ds' = Inr env'"
    by (rule getUsers_returns_only_mapped)
qed

theorem getUsers_preserves_fetch_order_witness:
  "repo_getUsersAndCount mem_deps page0 (store world3) = Inr (Some [carol, alice, bob], 3)
   \<and> map (\<lambda>e. outcome (toDtoWithRelations mem_deps e)) [carol, alice, bob]
       = map Inr [mem_toDto carol, mem_toDto alice, mem_toDto bob]
   \<and> map (\<lambda>e. settled_at (toDtoWithRelations mem_deps e)) [carol, alice, bob] = [5, 5, 3]
   \<and> Pagination_of mem_deps page0 3 [mem_toDto carol, mem_toDto alice, mem_toDto bob]
       = Inr (3, [mem_toDto carol, mem_toDto alice, mem_toDto bob])
   \<and> fst (getUsers mem_deps page0 world3)
       = Inr (3, [mem_toDto carol, mem_toDto alice, mem_toDto bob])
   \<and> map dto_username [mem_toDto carol, mem_toDto alice, mem_toDto bob]
       = [''carol'', ''alice'', ''bob'']"
proof -
  have fetched:
    "repo_getUsersAndCount mem_deps page0 (store world3) = Inr (Some [carol, alice, bob], 3)"
    by (simp add: mem_defs)
  have mapped: "map (\<lambda>e. outcome (toDtoWithRelations mem_deps e)) [carol, alice, bob]
       = map Inr [mem_toDto carol, mem_toDto alice, mem_toDto bob]"
    by (simp add: mem_deps_def)
  have times: "map (\<lambda>e. settled_at (toDtoWithRelations mem_deps e)) [carol, alice, bob]
       = [5, 5, 3]"
    by (simp add: mem_deps_def carol_def alice_def bob_def)
  have envelope: "Pagination_of mem_deps page0 3 [mem_toDto carol, mem_toDto alice, mem_toDto bob]
       = Inr (3, [mem_toDto carol, mem_toDto alice, mem_toDto bob])"
    by (simp add: mem_deps_def)
  from getUsers_preserves_fetch_order
    [where D = mem_deps and p = page0 and w = world3 and es = "[carol, alice, bob]" and n = 3
       and ds = "[mem_toDto carol, mem_toDto alice, mem_toDto bob]"
       and env = "(3, [mem_toDto carol, mem_toDto alice, mem_toDto bob])"
       and env' = "(3, [mem_toDto carol, mem_toDto alice, mem_toDto bob])"]
    fetched mapped envelope
  have "fst (getUsers mem_deps page0 world3)
      = Inr (3, [mem_toDto carol, mem_toDto alice, mem_toDto bob])"
    by simp
  with fetched mapped times envelope show ?thesis
    by (simp add: mem_toDto_def carol_def alice_def bob_def)
qed

subsection \<open>Update and block\<close>

text \<open>
  C7. When no user has the given id, \<^verbatim>\<open>updateUser\<close> fails with
  \<open>NotFoundException\<close>. The fetch is the only call made: neither the merge of the
  mapper nor \<^verbatim>\<open>save\<close> is reached. The result is \<open>NotFoundException\<close> whatever
  the other collaborators would do, and it is not an error the catch block of the
  operation can produce: it is never rewrapped.
\<close>

theorem updateUser_missing_NotFound:
  assumes absent: "repo_findOne D (ById i) (store w) = Inr None"
  shows "updateUser D i userDto w =
           (Inl (new_exception NotFoundException),
            w\<lparr>trace := trace w @ [Repo_findOne (ById i)]\<rparr>)
         \<and> fst (updateUser_catch D userDto err w') \<noteq> Inl (new_exception NotFoundException)"
proof
  show "updateUser D i userDto w =
           (Inl (new_exception NotFoundException),
            w\<lparr>trace := trace w @ [Repo_findOne (ById i)]\<rparr>)"
    using absent
    by (simp add: updateUser_def await_def throw_def logged_def usersRepository_findOne_def)
  show "fst (updateUser_catch D userDto err w') \<noteq> Inl (new_exception NotFoundException)"
    by (simp add: updateUser_catch_def throw_def)
qed

theorem updateUser_missing_NotFound_witness:
  "repo_findOne mem_deps (ById ''U9'') (store world0) = Inr None
   \<and> updateUser mem_deps ''U9'' empty_update world0 =
       (Inl (new_exception NotFoundException),
        \<lparr>store = [alice, bob], trace = [Repo_findOne (ById ''U9'')]\<rparr>)"
proof -
  have absent: "repo_findOne mem_deps (ById ''U9'') (store world0) = Inr None"
    by (simp add: mem_defs)
  from updateUser_missing_NotFound [OF absent, of empty_update timeout_error world0] absent
  show ?thesis by (simp add: world0_def)
qed

text \<open>
  C9. When the \<^verbatim>\<open>save\<close> of an update fails with the unique-violation code,
  \<^verbatim>\<open>updateUser\<close> fails with \<open>UserExistsException\<close> carrying the \<open>username\<close>
  property of the partial input. When the input has no username, what is carried is
  \<^verbatim>\<open>undefined\<close>, not the username stored for the entity.
\<close>

theorem updateUser_conflict_carries_input_username:
  assumes "repo_findOne D (ById i) (store w) = Inr (Some userEntity)"
    and "toUpdateEntity D userEntity userDto = Inr merged"
    and "repo_save D merged (store w) = (Inl err, db')"
    and "code err = Some (PgUniqueConstraintViolation D)"
  shows "fst (updateUser D i userDto w)
           = Inl (new_exception (UserExistsException (update_username userDto)))
         \<and> (update_username userDto = None \<longrightarrow>
              fst (updateUser D i userDto w) = Inl (new_exception (UserExistsException None))
              \<and> fst (updateUser D i userDto w)
                  \<noteq> Inl (new_exception (UserExistsException (Some (username userEntity)))))"
  using assms by (simp add: updateUser_def io_defs catch_defs)

theorem updateUser_conflict_carries_input_username_witness:
  "repo_findOne mem_deps_conflict (ById ''U2'') (store world0) = Inr (Some bob)
   \<and> repo_save mem_deps_conflict bob (store world0) = (Inl (driver_error ''23505''), [alice, bob])
   \<and> update_username empty_update = None
   \<and> username bob = ''bob''
   \<and> fst (updateUser mem_deps_conflict ''U2'' empty_update world0)
       = Inl (new_exception (UserExistsException None))"
proof -
  have found: "repo_findOne mem_deps_conflict (ById ''U2'') (store world0) = Inr (Some bob)"
    by (simp add: mem_defs)
  have merged: "toUpdateEntity mem_deps_conflict bob empty_update = Inr bob"
    by (simp add: mem_defs)
  have conflict:
    "repo_save mem_deps_conflict bob (store world0) = (Inl (driver_error ''23505''), [alice, bob])"
    by (simp add: mem_defs)
  have unique: "code (driver_error ''23505'') = Some (PgUniqueConstraintViolation mem_deps_conflict)"
    by (simp add: mem_defs)
  have absent: "update_username empty_update = None"
    by (simp add: empty_update_def)
  from updateUser_conflict_carries_input_username [OF found merged conflict unique] absent
  have "fst (updateUser mem_deps_conflict ''U2'' empty_update world0)
       = Inl (new_exception (UserExistsException None))"
    by simp
  with found conflict absent show ?thesis
    by (simp add: bob_def)
qed

text \<open>
  C6. \<^verbatim>\<open>blockUser\<close> has no not-found check. When no user has the given id, the
  assignment of the status to the absent fetch result throws a \<open>TypeError\<close>, outside
  the try block: the operation fails with it, untranslated, and not with
  \<open>NotFoundException\<close>; the fetch is the only call made.
\<close>

theorem blockUser_missing_unguarded:
  assumes absent: "repo_findOne D (ById i) (store w) = Inr None"
  shows "blockUser D i w =
           (Inl (new_exception TypeError), w\<lparr>trace := trace w @ [Repo_findOne (ById i)]\<rparr>)
         \<and> fst (blockUser D i w) \<noteq> Inl (new_exception NotFoundException)"
  using absent by (simp add: blockUser_def io_defs catch_defs)

theorem blockUser_missing_unguarded_witness:
  "repo_findOne mem_deps (ById ''U9'') (store world0) = Inr None
   \<and> blockUser mem_deps ''U9'' world0 =
       (Inl (new_exception TypeError),
        \<lparr>store = [alice, bob], trace = [Repo_findOne (ById ''U9'')]\<rparr>)"
proof -
  have absent: "repo_findOne mem_deps (ById ''U9'') (store world0) = Inr None"
    by (simp add: mem_defs)
  from blockUser_missing_unguarded [OF absent] absent
  show ?thesis by (simp add: world0_def)
qed

subsection \<open>Which entity the response is built from\<close>

text \<open>
  C10. On their successful paths, \<^verbatim>\<open>changePassword\<close> and \<^verbatim>\<open>blockUser\<close> return
  the DTO of the local entity, the one they assigned the new hash or the \<open>Blocked\<close>
  status to and passed to \<^verbatim>\<open>save\<close> (\<open>argument\<close>); what \<^verbatim>\<open>save\<close> resolved to
  (\<open>returned\<close>) plays no part. \<^verbatim>\<open>createUser\<close> and \<^verbatim>\<open>updateUser\<close> return the DTO
  of the entity \<^verbatim>\<open>save\<close> resolved to.
\<close>

theorem response_dto_source:
  "(repo_findOne D (WhereId userId) (store w) = Inr (Some e)
      \<and> compare D (currentPassword request) (password e) = Inr True
      \<and> encrypt D (newPassword request) = Inr h
      \<and> repo_save D (e\<lparr>password := h\<rparr>) (store w) = (Inr s, db')
      \<and> toDto D (argument s) = Returns dto
    \<longrightarrow> fst (changePassword D request userId w) = Inr dto)
   \<and> (repo_findOne D (ById i) (store w) = Inr (Some e)
      \<and> repo_save D (e\<lparr>status := Blocked\<rparr>) (store w) = (Inr s, db')
      \<and> toDto D (argument s) = Returns dto
    \<longrightarrow> fst (blockUser D i w) = Inr dto)
   \<and> (toCreateEntity D userDto = Inr e
      \<and> encrypt D (password e) = Inr h
      \<and> repo_save D (e\<lparr>password := h\<rparr>) (store w) = (Inr s, db')
      \<and> toDto D (returned s) = Returns dto
    \<longrightarrow> fst (createUser D userDto w) = Inr dto)
   \<and> (repo_findOne D (ById i) (store w) = Inr (Some e)
      \<and> toUpdateEntity D e updateDto = Inr merged
      \<and> repo_save D merged (store w) = (Inr s, db')
      \<and> toDto D (returned s) = Returns dto
    \<longrightarrow> fst (updateUser D i updateDto w) = Inr dto)"
proof (intro conjI impI)
  assume "repo_findOne D (WhereId userId) (store w) = Inr (Some e)
      \<and> compare D (currentPassword request) (password e) = Inr True
      \<and> encrypt D (newPassword request) = Inr h
      \<and> repo_save D (e\<lparr>password := h\<rparr>) (store w) = (Inr s, db')
      \<and> toDto D (argument s) = Returns dto"
  then show "fst (changePassword D request userId w) = Inr dto"
    by (simp add: changePassword_def io_defs)
next
  assume "repo_findOne D (ById i) (store w) = Inr (Some e)
      \<and> repo_save D (e\<lparr>status := Blocked\<rparr>) (store w) = (Inr s, db')
      \<and> toDto D (argument s) = Returns dto"
  then show "fst (blockUser D i w) = Inr dto"
    by (simp add: blockUser_def io_defs)
next
  assume "toCreateEntity D userDto = Inr e
      \<and> encrypt D (password e) = Inr h
      \<and> repo_save D (e\<lparr>password := h\<rparr>) (store w) = (Inr s, db')
      \<and> toDto D (returned s) = Returns dto"
  then show "fst (createUser D userDto w) = Inr dto"
    by (simp add: createUser_def io_defs)
next
  assume "repo_findOne D (ById i) (store w) = Inr (Some e)
      \<and> toUpdateEntity D e updateDto = Inr merged
      \<and> repo_save D merged (store w) = (Inr s, db')
      \<and> toDto D (returned s) = Returns dto"
  then show "fst (updateUser D i updateDto w) = Inr dto"
    by (simp add: updateUser_def io_defs)
qed

theorem response_dto_source_witness:
  "repo_save mem_deps_reload (alice\<lparr>password := ''h:n3w''\<rparr>) (store world0)
     = (Inr \<lparr>returned = alice\<lparr>password := ''h:n3w'', roles := [''loaded-from-db'']\<rparr>,
             argument = alice\<lparr>password := ''h:n3w''\<rparr>\<rparr>,
        [alice\<lparr>password := ''h:n3w''\<rparr>, bob])
   \<and> fst (changePassword mem_deps_reload
            \<lparr>currentPassword = ''p@ss1'', newPassword = ''n3w''\<rparr> ''U1'' world0)
       = Inr (mem_toDto alice)
   \<and> fst (blockUser mem_deps_reload ''U2'' world0) = Inr (mem_toDto (bob\<lparr>status := Blocked\<rparr>))
   \<and> fst (createUser mem_deps_reload carol_dto world0)
       = Inr \<lparr>dto_id = ''id-carol'', dto_username = ''carol'', dto_status = Active,
              dto_roles = [''loaded-from-db''], dto_permissions = []\<rparr>
   \<and> fst (updateUser mem_deps_reload ''U2'' empty_update world0)
       = Inr (mem_toDto (bob\<lparr>roles := [''loaded-from-db'']\<rparr>))"
proof -
  let ?request = "\<lparr>currentPassword = ''p@ss1'', newPassword = ''n3w''\<rparr>"
  let ?carol = "\<lparr>user_id = ''id-carol'', username = ''carol'', password = ''s3cret'',
      status = Active, roles = [''editor''], permissions = []\<rparr>"
  have found_alice: "repo_findOne mem_deps_reload (WhereId ''U1'') (store world0) = Inr (Some alice)"
    by (simp add: mem_defs)
  have matches: "compare mem_deps_reload (currentPassword ?request) (password alice) = Inr True"
    by (simp add: mem_defs)
  have hash: "encrypt mem_deps_reload (newPassword ?request) = Inr ''h:n3w''"
    by (simp add: mem_defs)
  have save_alice: "repo_save mem_deps_reload (alice\<lparr>password := ''h:n3w''\<rparr>) (store world0)
     = (Inr \<lparr>returned = alice\<lparr>password := ''h:n3w'', roles := [''loaded-from-db'']\<rparr>,
             argument = alice\<lparr>password := ''h:n3w''\<rparr>\<rparr>,
        [alice\<lparr>password := ''h:n3w''\<rparr>, bob])"
    by (simp add: mem_defs)
  have change: "fst (changePassword mem_deps_reload ?request ''U1'' world0) = Inr (mem_toDto alice)"
    using response_dto_source
      [where D = mem_deps_reload and userId = "''U1''" and w = world0 and e = alice
         and request = ?request and h = "''h:n3w''"
         and s = "\<lparr>returned = alice\<lparr>password := ''h:n3w'', roles := [''loaded-from-db'']\<rparr>,
             argument = alice\<lparr>password := ''h:n3w''\<rparr>\<rparr>"
         and db' = "[alice\<lparr>password := ''h:n3w''\<rparr>, bob]" and dto = "mem_toDto alice"]
      found_alice matches hash save_alice
    by (simp add: mem_deps_reload_def mem_deps_def mem_toDto_def)
  have found_bob: "repo_findOne mem_deps_reload (ById ''U2'') (store world0) = Inr (Some bob)"
    by (simp add: mem_defs)
  have save_bob: "repo_save mem_deps_reload (bob\<lparr>status := Blocked\<rparr>) (store world0)
     = (Inr \<lparr>returned = bob\<lparr>status := Blocked, roles := [''loaded-from-db'']\<rparr>,
             argument = bob\<lparr>status := Blocked\<rparr>\<rparr>,
        [bob\<lparr>status := Blocked\<rparr>, alice])"
    by (simp add: mem_defs)
  have block: "fst (blockUser mem_deps_reload ''U2'' world0)
      = Inr (mem_toDto (bob\<lparr>status := Blocked\<rparr>))"
    using response_dto_source
      [where D = mem_deps_reload and i = "''U2''" and w = world0 and e = bob
         and s = "\<lparr>returned = bob\<lparr>status := Blocked, roles := [''loaded-from-db'']\<rparr>,
             argument = bob\<lparr>status := Blocked\<rparr>\<rparr>"
         and db' = "[bob\<lparr>status := Blocked\<rparr>, alice]"
         and dto = "mem_toDto (bob\<lparr>status := Blocked\<rparr>)"]
      found_bob save_bob
    by (simp add: mem_deps_reload_def mem_deps_def)
  have mapped: "toCreateEntity mem_deps_reload carol_dto = Inr ?carol"
    by (simp add: mem_defs)
  have hash_carol: "encrypt mem_deps_reload (password ?carol) = Inr ''h:s3cret''"
    by (simp add: mem_defs)
  have save_carol: "repo_save mem_deps_reload (?carol\<lparr>password := ''h:s3cret''\<rparr>) (store world0)
     = (Inr \<lparr>returned = ?carol\<lparr>password := ''h:s3cret'', roles := [''loaded-from-db'']\<rparr>,
             argument = ?carol\<lparr>password := ''h:s3cret''\<rparr>\<rparr>,
        [?carol\<lparr>password := ''h:s3cret''\<rparr>, alice, bob])"
    by (simp add: mem_defs)
  have create: "fst (createUser mem_deps_reload carol_dto world0)
       = Inr \<lparr>dto_id = ''id-carol'', dto_username = ''carol'', dto_status = Active,
              dto_roles = [''loaded-from-db''], dto_permissions = []\<rparr>"
    using response_dto_source
      [where D = mem_deps_reload and userDto = carol_dto and w = world0 and e = ?carol
         and h = "''h:s3cret''"
         and s = "\<lparr>returned = ?carol\<lparr>password := ''h:s3cret'', roles := [''loaded-from-db'']\<rparr>,
             argument = ?carol\<lparr>password := ''h:s3cret''\<rparr>\<rparr>"
         and db' = "[?carol\<lparr>password := ''h:s3cret''\<rparr>, alice, bob]"
         and dto = "\<lparr>dto_id = ''id-carol'', dto_username = ''carol'', dto_status = Active,
              dto_roles = [''loaded-from-db''], dto_permissions = []\<rparr>"]
      mapped hash_carol save_carol
    by (simp add: mem_deps_reload_def mem_deps_def mem_toDto_def)
  have merged: "toUpdateEntity mem_deps_reload bob empty_update = Inr bob"
    by (simp add: mem_defs)
  have save_merged: "repo_save mem_deps_reload bob (store world0)
     = (Inr \<lparr>returned = bob\<lparr>roles := [''loaded-from-db'']\<rparr>, argument = bob\<rparr>, [bob, alice])"
    by (simp add: mem_defs)
  have update: "fst (updateUser mem_deps_reload ''U2'' empty_update world0)
       = Inr (mem_toDto (bob\<lparr>roles := [''loaded-from-db'']\<rparr>))"
    using response_dto_source
      [where D = mem_deps_reload and i = "''U2''" and w = world0 and e = bob
         and updateDto = empty_update and merged = bob
         and s = "\<lparr>returned = bob\<lparr>roles := [''loaded-from-db'']\<rparr>, argument = bob\<rparr>"
         and db' = "[bob, alice]" and dto = "mem_toDto (bob\<lparr>roles := [''loaded-from-db'']\<rparr>)"]
      found_bob merged save_merged
    by (simp add: mem_deps_reload_def mem_deps_def)
  from save_alice change block create update show ?thesis
    by blast
qed

end
